theory Spec2Isabelle
  imports Complex_Main "HOL-Library.Sublist" "HOL-Library.Log_Nat"
begin

section \<open>JavaScript numbers\<close>

text \<open>
  A JavaScript number is an IEEE 754 double: \<open>NaN\<close>, one of the two infinities, or a
  finite value, which is modelled by the rational number that it denotes. There is one
  zero: the sign of zero is not modelled. (In the handler embedded below that uses these
  operators no reply depends on it: a divisor is never \<open>-0\<close>, because \<open>x || 0\<close> turns
  \<open>-0\<close> into \<open>0\<close>, and JSON and \<open>toFixed\<close> write \<open>-0\<close> as \<open>0\<close>.)
\<close>

datatype jsnum = NaN | PInf | NInf | Fin rat

text \<open>
  Rounding a rational to the nearest double, a tie going to the even significand: 53
  bits of significand, gradual underflow below 2 to the power -1022, an infinity from 2
  to the power 1024 on. For positive \<open>p\<close> and \<open>q\<close>, \<open>exponent2 p q\<close> is the exponent
  \<open>e\<close> for which \<open>p / q\<close> lies between \<open>pow2 e\<close> and \<open>pow2 (e + 1)\<close>, and
  \<open>round_even n d\<close> is the integer nearest to \<open>n / d\<close>.
\<close>

definition pow2 :: "int \<Rightarrow> rat" where
  "pow2 e = (if 0 \<le> e then of_int (2 ^ nat e) else 1 / of_int (2 ^ nat (- e)))"

definition exponent2 :: "int \<Rightarrow> int \<Rightarrow> int" where
  "exponent2 p q =
     (let d = bitlen p - bitlen q
      in if (if 0 \<le> d then q * 2 ^ nat d \<le> p else q \<le> p * 2 ^ nat (- d)) then d else d - 1)"

definition round_even :: "int \<Rightarrow> int \<Rightarrow> int" where
  "round_even n d =
     (let f = n div d; r = n mod d
      in if 2 * r < d then f else if d < 2 * r then f + 1 else if even f then f else f + 1)"

definition to_double :: "rat \<Rightarrow> jsnum" where
  "to_double x =
     (if x = 0 then Fin 0
      else
        (let (p, q) = quotient_of \<bar>x\<bar>;
             e = max (exponent2 p q) (- 1022);
             s = e - 52;
             n = (if 0 \<le> s then round_even p (q * 2 ^ nat s)
                  else round_even (p * 2 ^ nat (- s)) q)
         in if 1024 \<le> e \<or> (e = 1023 \<and> n = 2 ^ 53) then (if 0 < x then PInf else NInf)
            else Fin ((if 0 < x then of_int n else - of_int n) * pow2 s)))"

text \<open>\<open>x || 0\<close> on a number: \<open>NaN\<close> and \<open>0\<close> are falsy.\<close>

fun js_or0 :: "jsnum \<Rightarrow> jsnum" where
  "js_or0 NaN = Fin 0"
| "js_or0 (Fin a) = (if a = 0 then Fin 0 else Fin a)"
| "js_or0 x = x"

text \<open>\<open>a <= b\<close> and \<open>a > b\<close>: every comparison with \<open>NaN\<close> is false.\<close>

fun js_le :: "jsnum \<Rightarrow> jsnum \<Rightarrow> bool" where
  "js_le NaN _ = False"
| "js_le _ NaN = False"
| "js_le (Fin a) (Fin b) = (a \<le> b)"
| "js_le NInf _ = True"
| "js_le _ PInf = True"
| "js_le PInf _ = False"
| "js_le (Fin a) NInf = False"

fun js_gt :: "jsnum \<Rightarrow> jsnum \<Rightarrow> bool" where
  "js_gt NaN _ = False"
| "js_gt _ NaN = False"
| "js_gt (Fin a) (Fin b) = (a > b)"
| "js_gt PInf PInf = False"
| "js_gt PInf _ = True"
| "js_gt NInf _ = False"
| "js_gt (Fin a) NInf = True"
| "js_gt (Fin a) PInf = False"

text \<open>
  \<open>a - b\<close>, \<open>a * b\<close> and \<open>a / b\<close>: on finite numbers the exact result, rounded to
  the nearest double.
\<close>

fun js_sub :: "jsnum \<Rightarrow> jsnum \<Rightarrow> jsnum" where
  "js_sub NaN _ = NaN"
| "js_sub _ NaN = NaN"
| "js_sub (Fin a) (Fin b) = to_double (a - b)"
| "js_sub PInf PInf = NaN"
| "js_sub NInf NInf = NaN"
| "js_sub PInf _ = PInf"
| "js_sub NInf _ = NInf"
| "js_sub (Fin a) PInf = NInf"
| "js_sub (Fin a) NInf = PInf"

fun js_sign_inf :: "bool \<Rightarrow> jsnum" where
  "js_sign_inf positive = (if positive then PInf else NInf)"

fun js_mul :: "jsnum \<Rightarrow> jsnum \<Rightarrow> jsnum" where
  "js_mul NaN _ = NaN"
| "js_mul _ NaN = NaN"
| "js_mul (Fin a) (Fin b) = to_double (a * b)"
| "js_mul PInf PInf = PInf"
| "js_mul NInf NInf = PInf"
| "js_mul PInf NInf = NInf"
| "js_mul NInf PInf = NInf"
| "js_mul PInf (Fin b) = (if b = 0 then NaN else js_sign_inf (0 < b))"
| "js_mul NInf (Fin b) = (if b = 0 then NaN else js_sign_inf (b < 0))"
| "js_mul (Fin a) PInf = (if a = 0 then NaN else js_sign_inf (0 < a))"
| "js_mul (Fin a) NInf = (if a = 0 then NaN else js_sign_inf (a < 0))"

fun js_div :: "jsnum \<Rightarrow> jsnum \<Rightarrow> jsnum" where
  "js_div NaN _ = NaN"
| "js_div _ NaN = NaN"
| "js_div (Fin a) (Fin b) =
     (if b = 0 then (if a = 0 then NaN else js_sign_inf (0 < a)) else to_double (a / b))"
| "js_div (Fin a) _ = Fin 0"
| "js_div PInf (Fin b) = js_sign_inf (0 \<le> b)"
| "js_div NInf (Fin b) = js_sign_inf (b < 0)"
| "js_div _ _ = NaN"

text \<open>\<open>Math.max(a, b)\<close> is \<open>NaN\<close> as soon as one argument is.\<close>

fun Math_max :: "jsnum \<Rightarrow> jsnum \<Rightarrow> jsnum" where
  "Math_max NaN _ = NaN"
| "Math_max _ NaN = NaN"
| "Math_max a b = (if js_le a b then b else a)"

text \<open>
  \<open>Math.round(x)\<close>: the integer nearest to \<open>x\<close>, a half rounded up. It is computed
  exactly (the integer nearest to a double is a double).
\<close>

fun Math_round :: "jsnum \<Rightarrow> jsnum" where
  "Math_round (Fin a) = Fin (of_int \<lfloor>a + 1 / 2\<rfloor>)"
| "Math_round x = x"

section \<open>Failures\<close>

text \<open>
  The ways a call can fail. \<open>MissingParameters\<close>, \<open>InvalidAmount\<close> and
  \<open>InsufficientBalance\<close> are the rejections that the payment handlers of
  \<open>server/routes.ts\<close> answer with status 400 (``Missing required transaction
  parameters'', ``Invalid transaction amount'' or ``Invalid deposit amount'', and
  ``Insufficient balance for withdrawal'' with the current balance and the requested
  amount). \<open>Payment_failed\<close> is the \<open>catch\<close> branch of the send handler (status 400,
  ``Payment failed''), \<open>Estimate_failed\<close> that of the estimate handler (status 500,
  ``Failed to calculate estimate''), and \<open>Query_failed\<close> is an error that the database
  raises for a query of \<open>server/storage.ts\<close>. The last three are the failures named by
  the specification's error taxonomy; no function embedded below returns them.
\<close>

datatype failure =
    MissingParameters
  | InvalidAmount
  | InsufficientBalance rat rat
  | Payment_failed
  | Estimate_failed
  | Query_failed
  | InvalidArgument
  | NotFound
  | InvalidTransition

section \<open>Tax estimate: \<open>POST /api/tax-refund/estimate\<close>\<close>

text \<open>
  A field of the request body, by what \<open>parseFloat\<close> (a JavaScript built-in) does with
  it. \<open>parseFloat\<close> converts its argument to a string and reads the longest prefix that
  is a decimal numeral: \<open>Decimal r\<close> is a field whose text starts with the numeral \<open>r\<close>
  (the number \<open>4.6\<close>, the strings \<open>"4.6"\<close> and \<open>"4.6abc"\<close>), \<open>Infinite\<close> one that
  starts with \<open>Infinity\<close> or \<open>-Infinity\<close>, \<open>Not_numeric\<close> any other field that has a
  string (a missing field, \<open>null\<close>, \<open>true\<close>, \<open>"abc"\<close>, \<open>{}\<close>), and \<open>Unreadable\<close> a field
  whose conversion to a string throws a \<open>TypeError\<close> (an object such as
  \<open>{"toString": 0}\<close>). The result is \<open>None\<close> when it throws.
\<close>

datatype json_field = Decimal rat | Infinite bool | Not_numeric | Unreadable

fun parseFloat :: "json_field \<Rightarrow> jsnum option" where
  "parseFloat (Decimal r) = Some (to_double r)"
| "parseFloat (Infinite positive) = Some (js_sign_inf positive)"
| "parseFloat Not_numeric = Some NaN"
| "parseFloat Unreadable = None"

text \<open>
  The fields of the request body that the handler uses; the body is a JSON object.
  \<open>refundType\<close> is only compared with a string (a field that is not a string is any
  string other than \<open>income_tax\<close>); \<open>taxYear\<close> is read but never used.
\<close>

record estimate_body =
  grossIncome :: json_field
  taxPaid :: json_field
  deductions :: json_field
  refundType :: string

datatype processing_time = Days_3_5 | Days_5_7

text \<open>
  The reply. \<open>effectiveRate\<close> is the number that the handler formats with
  \<open>toFixed(2)\<close>; \<open>processingTime\<close> stands for the two constant strings of the source;
  the constant list \<open>requiredDocuments\<close> is left out.
\<close>

record estimate_reply =
  estimatedAmount :: jsnum
  processingTime :: processing_time
  eligibilityScore :: int
  taxableIncome :: jsnum
  calculatedTax :: jsnum
  effectiveRate :: jsnum

text \<open>The literals \<open>0.06\<close>, \<open>0.15\<close>, ... of the source are the doubles nearest to them.\<close>

definition taxRate :: "jsnum \<Rightarrow> jsnum" where
  "taxRate income =
     (if js_le income (Fin 12000000) then to_double (6 / 100)
      else if js_le income (Fin 46000000) then to_double (15 / 100)
      else if js_le income (Fin 88000000) then to_double (24 / 100)
      else if js_le income (Fin 150000000) then to_double (35 / 100)
      else to_double (38 / 100))"

definition eligibility :: "jsnum \<Rightarrow> jsnum \<Rightarrow> string \<Rightarrow> int" where
  "eligibility income deduct rtype =
     (let s0 = 85;
          s1 = (if js_gt income (Fin 100000000) then s0 - 10 else s0);
          s2 = (if js_gt deduct (js_mul income (to_double (3 / 10))) then s1 - 5 else s1);
          s3 = (if rtype = ''income_tax'' then s2 + 5 else s2)
      in min 100 (max 0 s3))"

text \<open>
  The handler. The three calls of \<open>parseFloat\<close> are the only steps of its \<open>try\<close>
  block that can throw; when one does, the \<open>catch\<close> branch answers with status 500.
\<close>

definition estimate :: "estimate_body \<Rightarrow> failure + estimate_reply" where
  "estimate body =
     (case (parseFloat (grossIncome body), parseFloat (taxPaid body), parseFloat (deductions body)) of
        (Some g, Some p, Some d) \<Rightarrow>
          (let income = js_or0 g;
               paid = js_or0 p;
               deduct = js_or0 d;
               rate = taxRate income;
               taxable = Math_max (Fin 0) (js_sub income deduct);
               tax = js_mul taxable rate;
               amount = Math_max (Fin 0) (js_sub paid tax)
           in Inr \<lparr> estimatedAmount = Math_round amount,
                    processingTime = (if js_gt amount (Fin 5000000) then Days_5_7 else Days_3_5),
                    eligibilityScore = eligibility income deduct (refundType body),
                    taxableIncome = taxable,
                    calculatedTax = tax,
                    effectiveRate = js_mul (js_div tax income) (Fin 100) \<rparr>)
      | _ \<Rightarrow> Inl Estimate_failed)"

section \<open>The database\<close>

text \<open>
  The tables are declared in \<open>shared/schema\<close> (in the sources, the second part of
  \<open>shared/locales.ts\<close>). A table is the list of its rows in the order in which a query
  without \<open>ORDER BY\<close> yields them; \<open>INSERT\<close> appends, and a \<open>serial\<close> key takes the
  next number (no row is ever deleted). A \<open>text\<close> column is a string, an \<open>integer\<close>
  column an integer, a \<open>timestamp\<close> a point in time counted by a natural number, and a
  column that may be \<open>NULL\<close> an option; \<open>created_at\<close> and \<open>updated_at\<close> are always
  filled, by their default or by \<open>NOW()\<close>, since no statement names them otherwise.

  An \<open>integer\<close> column has four bytes: a query that compares it with a parameter
  outside that range, or with \<open>NaN\<close>, is refused by the database.
\<close>

definition int4 :: "int \<Rightarrow> bool" where
  "int4 i = (- 2147483648 \<le> i \<and> i \<le> 2147483647)"

text \<open>
  A \<open>numeric(18, 8)\<close> column holds a decimal number with 8 digits after the point: what
  is written to it is rounded to 8 decimals, a tie away from zero. A value of
  10,000,000,000 or more does not fit the column; the values written are taken to fit.
\<close>

definition numeric_18_8 :: "rat \<Rightarrow> rat" where
  "numeric_18_8 x =
     (if 0 \<le> x then of_int \<lfloor>x * 100000000 + 1 / 2\<rfloor> / 100000000
      else - (of_int \<lfloor>- x * 100000000 + 1 / 2\<rfloor> / 100000000))"

text \<open>The table \<open>wallet_balances\<close>, reached with raw SQL from \<open>server/routes.ts\<close>.\<close>

record wallet_row =
  wb_id :: int
  address :: string
  balance :: rat
  asset_type :: string
  updated_at :: nat

text \<open>The table \<open>transactions\<close>; \<open>merchant_info\<close> is JSON, kept as its text.\<close>

record transaction =
  tx_id :: int
  tx_userId :: int
  tx_fromAddress :: string
  tx_toAddress :: string
  tx_assetType :: string
  tx_amount :: rat
  tx_fee :: "rat option"
  tx_txHash :: string
  tx_blockNumber :: "int option"
  tx_status :: string
  tx_transactionType :: string
  tx_merchantInfo :: "string option"
  tx_createdAt :: nat
  tx_confirmedAt :: "nat option"

text \<open>
  What \<open>insertTransactionSchema\<close> accepts, as far as the handlers below fill it in: the
  columns that are \<open>NOT NULL\<close> without a default, and \<open>status\<close>. The optional \<open>fee\<close>,
  \<open>blockNumber\<close> and \<open>merchantInfo\<close> are never given.
\<close>

record transaction_data =
  d_userId :: int
  d_fromAddress :: string
  d_toAddress :: string
  d_assetType :: string
  d_amount :: rat
  d_txHash :: string
  d_status :: string
  d_transactionType :: string

text \<open>The table \<open>tax_refunds\<close>.\<close>

record tax_refund =
  tr_id :: int
  tr_userId :: int
  tr_passportNumber :: string
  tr_purchaseAmount :: rat
  tr_taxAmount :: rat
  tr_refundAmount :: rat
  tr_merchantName :: string
  tr_receiptHash :: string
  tr_receiptImage :: "string option"
  tr_kwanAmount :: "rat option"
  tr_blockchainTxHash :: "string option"
  tr_status :: string
  tr_processedAt :: "nat option"
  tr_createdAt :: nat

text \<open>
  The operations on the database, in the order in which a handler performs them. The
  field \<open>steps\<close> of the state records them; it is there to state the order of a
  handler's steps and no handler reads it.
\<close>

datatype step = Select_balance | Check_sufficient | Create_transaction | Update_balance | Insert_balance

record db =
  wallet_balances :: "wallet_row list"
  transactions :: "transaction list"
  taxRefunds :: "tax_refund list"
  steps :: "step list"

definition did :: "step \<Rightarrow> db \<Rightarrow> db" where
  "did s st = st\<lparr>steps := steps st @ [s]\<rparr>"

text \<open>
  \<open>SELECT balance FROM wallet_balances WHERE address = $1\<close>: the rows of the result. The
  handlers read a balance with \<open>parseFloat\<close>; the payment handlers are modelled in exact
  decimal arithmetic, so the balance is read as the number stored.
\<close>

definition select_balance :: "string \<Rightarrow> db \<Rightarrow> rat list \<times> db" where
  "select_balance a st =
     (map balance (filter (\<lambda>r. address r = a) (wallet_balances st)), did Select_balance st)"

text \<open>\<open>UPDATE wallet_balances SET balance = $1, updated_at = NOW() WHERE address = $2\<close>.\<close>

definition update_balance :: "nat \<Rightarrow> rat \<Rightarrow> string \<Rightarrow> db \<Rightarrow> db" where
  "update_balance now b a st =
     did Update_balance
       (st\<lparr>wallet_balances :=
             map (\<lambda>r. if address r = a
                       then r\<lparr>balance := numeric_18_8 b, updated_at := now\<rparr> else r)
               (wallet_balances st)\<rparr>)"

text \<open>
  \<open>INSERT INTO wallet_balances (address, balance, asset_type) VALUES ($1, $2, $3)\<close>;
  \<open>id\<close> and \<open>updated_at\<close> take their defaults.
\<close>

definition insert_balance :: "nat \<Rightarrow> string \<Rightarrow> rat \<Rightarrow> string \<Rightarrow> db \<Rightarrow> db" where
  "insert_balance now a b asset st =
     did Insert_balance
       (st\<lparr>wallet_balances :=
             wallet_balances st @
               [\<lparr>wb_id = int (length (wallet_balances st)) + 1, address = a,
                 balance = numeric_18_8 b, asset_type = asset, updated_at = now\<rparr>]\<rparr>)"

section \<open>Storage: \<open>server/storage.ts\<close>\<close>

text \<open>
  \<open>createTransaction\<close>: insert the row and return it as stored; \<open>id\<close>, \<open>fee\<close> and
  \<open>createdAt\<close> take their defaults. The database is taken to accept the row: a row of
  \<open>users\<close> with the id exists, the hash is not yet in the table, the amount fits its
  column.
\<close>

definition createTransaction :: "nat \<Rightarrow> transaction_data \<Rightarrow> db \<Rightarrow> transaction \<times> db" where
  "createTransaction now d st =
     (let t = \<lparr>tx_id = int (length (transactions st)) + 1, tx_userId = d_userId d,
                tx_fromAddress = d_fromAddress d, tx_toAddress = d_toAddress d,
                tx_assetType = d_assetType d, tx_amount = numeric_18_8 (d_amount d),
                tx_fee = Some 0, tx_txHash = d_txHash d, tx_blockNumber = None,
                tx_status = d_status d, tx_transactionType = d_transactionType d,
                tx_merchantInfo = None, tx_createdAt = now, tx_confirmedAt = None\<rparr>
      in (t, did Create_transaction (st\<lparr>transactions := transactions st @ [t]\<rparr>)))"

text \<open>
  \<open>getTransactionsByUserId\<close>: a \<open>select\<close> with a \<open>where\<close> on the integer column
  \<open>user_id\<close> and no \<open>orderBy\<close>. \<open>userId\<close> is an integer (the id in the session).
\<close>

definition getTransactionsByUserId :: "int \<Rightarrow> db \<Rightarrow> failure + transaction list" where
  "getTransactionsByUserId userId st =
     (if int4 userId then Inr (filter (\<lambda>t. tx_userId t = userId) (transactions st))
      else Inl Query_failed)"

text \<open>
  \<open>processTaxRefund\<close>: an \<open>update\<close> of the rows with the given id, \<open>returning\<close>
  them; the result is the first of them, \<open>undefined\<close> (here \<open>None\<close>) when there is
  none. \<open>refundId\<close> is what \<open>parseInt\<close> returned in the caller: an integer, or \<open>NaN\<close>
  (here \<open>None\<close>). \<open>now\<close> is the value of \<open>new Date()\<close>.
\<close>

definition processTaxRefund ::
  "nat \<Rightarrow> int option \<Rightarrow> string \<Rightarrow> db \<Rightarrow> failure + (tax_refund option \<times> db)" where
  "processTaxRefund now refundId action st =
     (case refundId of
        None \<Rightarrow> Inl Query_failed
      | Some i \<Rightarrow>
          if \<not> int4 i then Inl Query_failed
          else
            (let status = (if action = ''approve'' then ''approved'' else ''rejected'');
                 rows = map (\<lambda>r. if tr_id r = i
                                  then r\<lparr>tr_status := status, tr_processedAt := Some now\<rparr>
                                  else r) (taxRefunds st);
                 returning = filter (\<lambda>r. tr_id r = i) rows
             in Inr (case returning of [] \<Rightarrow> None | taxRefund # _ \<Rightarrow> Some taxRefund,
                     st\<lparr>taxRefunds := rows\<rparr>)))"

section \<open>Payments: \<open>POST /api/payments/send\<close> and \<open>POST /api/payments/deposit\<close>\<close>

text \<open>
  The fields of the request body that the handlers read, and the three further fields
  that \<open>insertTransactionSchema\<close> requires of a body that is passed to it whole; \<open>None\<close>
  is a missing field. \<open>amount\<close> is the number that the field denotes, and
  \<open>amount_quoted\<close> tells whether it came as a JSON string holding a decimal numeral
  or as a JSON number. A request whose amount is anything else (a string that is no
  numeral, \<open>true\<close>, an object) is outside the model.
\<close>

record payment_body =
  toAddress :: "string option"
  amount :: "rat option"
  amount_quoted :: bool
  assetType :: "string option"
  body_fromAddress :: "string option"
  body_txHash :: "string option"
  body_transactionType :: "string option"

text \<open>
  \<open>!x\<close> for a string field and for the amount: the empty string and the number \<open>0\<close>
  are falsy, a string that holds a numeral is not.
\<close>

fun falsy_string :: "string option \<Rightarrow> bool" where
  "falsy_string None = True"
| "falsy_string (Some s) = (s = [])"

definition falsy_amount :: "payment_body \<Rightarrow> bool" where
  "falsy_amount body =
     (case amount body of None \<Rightarrow> True | Some x \<Rightarrow> \<not> amount_quoted body \<and> x = 0)"

text \<open>
  The replies with status 200: the stored transaction with \<open>previousBalance\<close> and
  \<open>newBalance\<close>, or the stored transaction alone (a send of another asset than XP).
\<close>

datatype payment_reply =
    Balance_updated transaction rat rat
  | Recorded transaction

definition fromAddress :: string where
  "fromAddress = ''0xb8c1f75bb7550bb51039c64e92c78d15ad9dbbe1''"

text \<open>
  \<open>authenticateToken\<close> sets \<open>req.user.userId\<close> to 1 on both paths. \<open>now\<close> is the
  database's clock and \<open>txHash\<close> the hash drawn with \<open>Math.random\<close>. The three
  fields are read with \<open>the\<close> only after the first check has found them present.

  The payment handlers are modelled in exact decimal arithmetic: their one comparison and
  their one addition or subtraction are taken on the numbers themselves, without the
  rounding of \<open>parseFloat\<close> and of the operators to doubles. On whole numbers below
  10,000,000,000 nothing is rounded, neither by the handlers nor by the column.

  In the XP branch and in the deposit handler \<open>insertTransactionSchema.parse\<close> accepts
  what the handler builds. A send of another asset passes the body to the schema, which
  throws unless \<open>fromAddress\<close>, \<open>txHash\<close> and \<open>transactionType\<close> are there and the
  amount is a string; the \<open>catch\<close> branch then answers with status 400. The database is
  taken to carry out every statement (see \<open>numeric_18_8\<close> and \<open>createTransaction\<close>),
  so the \<open>catch\<close> branches have no other counterpart.
\<close>

definition send :: "nat \<Rightarrow> string \<Rightarrow> payment_body \<Rightarrow> db \<Rightarrow> (failure + payment_reply) \<times> db" where
  "send now txHash body st =
     (if falsy_string (toAddress body) \<or> falsy_amount body \<or> falsy_string (assetType body)
      then (Inl MissingParameters, st)
      else
        (let to = the (toAddress body); amt = the (amount body); asset = the (assetType body)
         in if amt \<le> 0 then (Inl InvalidAmount, st)
            else if asset = ''XP'' then
              (let (rows, st1) = select_balance fromAddress st;
                   currentBalance = (case rows of [] \<Rightarrow> 1 | b # _ \<Rightarrow> b);
                   st2 = did Check_sufficient st1
               in if currentBalance < amt
                  then (Inl (InsufficientBalance currentBalance amt), st2)
                  else
                    (let (transaction, st3) =
                           createTransaction now
                             \<lparr>d_userId = 1, d_fromAddress = fromAddress, d_toAddress = to,
                              d_assetType = asset, d_amount = amt, d_txHash = txHash,
                              d_status = ''completed'', d_transactionType = ''send''\<rparr> st2;
                         newBalance = currentBalance - amt;
                         st4 = update_balance now newBalance fromAddress st3
                     in (Inr (Balance_updated transaction currentBalance newBalance), st4)))
            else
              (case (body_fromAddress body, body_txHash body, body_transactionType body) of
                 (Some from, Some hash, Some type) \<Rightarrow>
                   if amount_quoted body then
                     (let (transaction, st1) =
                            createTransaction now
                              \<lparr>d_userId = 1, d_fromAddress = from, d_toAddress = to,
                               d_assetType = asset, d_amount = amt, d_txHash = hash,
                               d_status = ''pending'', d_transactionType = type\<rparr> st
                      in (Inr (Recorded transaction), st1))
                   else (Inl Payment_failed, st)
               | _ \<Rightarrow> (Inl Payment_failed, st))))"

definition deposit :: "nat \<Rightarrow> string \<Rightarrow> payment_body \<Rightarrow> db \<Rightarrow> (failure + payment_reply) \<times> db" where
  "deposit now txHash body st =
     (let asset = (case assetType body of None \<Rightarrow> ''XP'' | Some a \<Rightarrow> a)
      in if falsy_amount body \<or> the (amount body) \<le> 0
         then (Inl InvalidAmount, st)
         else
           (let amt = the (amount body);
                (rows, st1) = select_balance fromAddress st;
                currentBalance = (case rows of [] \<Rightarrow> 0 | b # _ \<Rightarrow> b);
                newBalance = currentBalance + amt;
                st2 = (if rows \<noteq> []
                       then update_balance now newBalance fromAddress st1
                       else insert_balance now fromAddress newBalance asset st1);
                (transaction, st3) =
                  createTransaction now
                    \<lparr>d_userId = 1, d_fromAddress = ''external'', d_toAddress = fromAddress,
                     d_assetType = asset, d_amount = amt, d_txHash = txHash,
                     d_status = ''completed'', d_transactionType = ''receive''\<rparr> st2
            in (Inr (Balance_updated transaction currentBalance newBalance), st3)))"

section \<open>Sequences of payments\<close>

datatype payment = Send nat string payment_body | Deposit nat string payment_body

fun handle :: "payment \<Rightarrow> db \<Rightarrow> (failure + payment_reply) \<times> db" where
  "handle (Send now txHash body) st = send now txHash body st"
| "handle (Deposit now txHash body) st = deposit now txHash body st"


fun final :: "payment list \<Rightarrow> db \<Rightarrow> db" where
  "final [] st = st"
| "final (p # ps) st = final ps (snd (handle p st))"





text \<open>The balance stored for the wallet: that of the first row with its address.\<close>

definition stored_balance :: "db \<Rightarrow> rat option" where
  "stored_balance st =
     (case filter (\<lambda>r. address r = fromAddress) (wallet_balances st) of
        [] \<Rightarrow> None
      | r # _ \<Rightarrow> Some (balance r))"

definition balances_nonneg :: "db \<Rightarrow> bool" where
  "balances_nonneg st = list_all (\<lambda>r. 0 \<le> balance r) (wallet_balances st)"

text \<open>
  Payments in whole numbers: every amount is an integer, and the amounts of the deposits
  add up to \<open>deposit_total\<close>.
\<close>

definition whole :: "rat \<Rightarrow> bool" where
  "whole x = (of_int \<lfloor>x\<rfloor> = x)"




text \<open>A list of transactions is most-recent-first when \<open>createdAt\<close> never increases along it.\<close>

definition most_recent_first :: "transaction list \<Rightarrow> bool" where
  "most_recent_first ts = sorted_wrt (\<lambda>a b. tx_createdAt b \<le> tx_createdAt a) ts"

definition empty_db :: db where
  "empty_db = \<lparr>wallet_balances = [], transactions = [], taxRefunds = [], steps = []\<rparr>"

section \<open>Fixtures\<close>

text \<open>Concrete databases and request bodies on which the theorems below are run.\<close>

definition wallet_db :: "rat \<Rightarrow> db" where
  "wallet_db b =
     \<lparr>wallet_balances =
        [\<lparr>wb_id = 1, address = fromAddress, balance = b, asset_type = ''XP'', updated_at = 0\<rparr>],
      transactions = [], taxRefunds = [], steps = []\<rparr>"

definition xp_send :: "rat \<Rightarrow> payment_body" where
  "xp_send a =
     \<lparr>toAddress = Some ''0xabc'', amount = Some a, amount_quoted = False, assetType = Some ''XP'',
      body_fromAddress = None, body_txHash = None, body_transactionType = None\<rparr>"

definition xp_deposit :: "rat \<Rightarrow> payment_body" where
  "xp_deposit a =
     \<lparr>toAddress = None, amount = Some a, amount_quoted = False, assetType = None,
      body_fromAddress = None, body_txHash = None, body_transactionType = None\<rparr>"

definition refund_db :: "tax_refund \<Rightarrow> db" where
  "refund_db r = \<lparr>wallet_balances = [], transactions = [], taxRefunds = [r], steps = []\<rparr>"

definition refund7 :: tax_refund where
  "refund7 =
     \<lparr>tr_id = 7, tr_userId = 1, tr_passportNumber = ''M12345678'', tr_purchaseAmount = 110000,
      tr_taxAmount = 10000, tr_refundAmount = 10000, tr_merchantName = ''shop'',
      tr_receiptHash = ''0x01'', tr_receiptImage = None, tr_kwanAmount = None,
      tr_blockchainTxHash = None, tr_status = ''pending'', tr_processedAt = None,
      tr_createdAt = 10\<rparr>"

section \<open>Lemmas on stored numbers\<close>


lemma whole_of_int [simp]: "whole (of_int n)"
  by (simp add: whole_def)




lemma numeric_of_int: "numeric_18_8 (of_int n) = of_int n"
proof -
  have a: "\<lfloor>rat_of_int n * 100000000 + 1 / 2\<rfloor> = n * 100000000"
    by (rule floor_unique) simp_all
  have b: "\<lfloor>1 / 2 - rat_of_int n * 100000000\<rfloor> = - n * 100000000"
    by (rule floor_unique) simp_all
  show ?thesis
    by (simp add: numeric_18_8_def a b)
qed


section \<open>Lemmas on the tax estimate\<close>

lemma js_or0_Fin: "js_or0 (Fin a) = Fin a"
  by simp

lemma Math_max_Fin: "Math_max (Fin a) (Fin b) = Fin (max a b)"
  by (simp add: max_def)

lemma taxRate_Fin:
  "taxRate (Fin g) =
     (if g \<le> 12000000 then to_double (6 / 100) else if g \<le> 46000000 then to_double (15 / 100)
      else if g \<le> 88000000 then to_double (24 / 100) else if g \<le> 150000000 then to_double (35 / 100)
      else to_double (38 / 100))"
  by (simp add: taxRate_def)

lemma estimate_readable:
  assumes "parseFloat fg = Some g" "parseFloat fp = Some p" "parseFloat fd = Some d"
  shows "estimate \<lparr>grossIncome = fg, taxPaid = fp, deductions = fd, refundType = t\<rparr> =
     Inr \<lparr>estimatedAmount =
             Math_round (Math_max (Fin 0)
               (js_sub (js_or0 p)
                  (js_mul (Math_max (Fin 0) (js_sub (js_or0 g) (js_or0 d))) (taxRate (js_or0 g))))),
           processingTime =
             (if js_gt (Math_max (Fin 0)
               (js_sub (js_or0 p)
                  (js_mul (Math_max (Fin 0) (js_sub (js_or0 g) (js_or0 d))) (taxRate (js_or0 g)))))
                 (Fin 5000000) then Days_5_7 else Days_3_5),
           eligibilityScore = eligibility (js_or0 g) (js_or0 d) t,
           taxableIncome = Math_max (Fin 0) (js_sub (js_or0 g) (js_or0 d)),
           calculatedTax = js_mul (Math_max (Fin 0) (js_sub (js_or0 g) (js_or0 d))) (taxRate (js_or0 g)),
           effectiveRate =
             js_mul (js_div (js_mul (Math_max (Fin 0) (js_sub (js_or0 g) (js_or0 d))) (taxRate (js_or0 g)))
                       (js_or0 g)) (Fin 100)\<rparr>"
  using assms by (simp add: estimate_def Let_def)

lemma parseFloat_None: "(parseFloat f = None) = (f = Unreadable)"
  by (cases f) simp_all

lemma estimate_unreadable:
  "(estimate body = Inl Estimate_failed) =
     (grossIncome body = Unreadable \<or> taxPaid body = Unreadable \<or> deductions body = Unreadable)"
  by (auto simp add: estimate_def Let_def parseFloat_None [symmetric] split: option.splits)

lemma estimate_Inl: "estimate body = Inl f \<Longrightarrow> f = Estimate_failed"
  by (auto simp add: estimate_def Let_def split: option.splits)

section \<open>Lemmas on the database and the payment handlers\<close>

lemma did_simps [simp]:
  "wallet_balances (did s st) = wallet_balances st"
  "transactions (did s st) = transactions st"
  "taxRefunds (did s st) = taxRefunds st"
  "steps (did s st) = steps st @ [s]"
  by (simp_all add: did_def)

lemma update_balance_simps [simp]:
  "wallet_balances (update_balance now b a st) =
     map (\<lambda>r. if address r = a then r\<lparr>balance := numeric_18_8 b, updated_at := now\<rparr> else r)
       (wallet_balances st)"
  "transactions (update_balance now b a st) = transactions st"
  "taxRefunds (update_balance now b a st) = taxRefunds st"
  "steps (update_balance now b a st) = steps st @ [Update_balance]"
  by (simp_all add: update_balance_def)

lemma insert_balance_simps [simp]:
  "wallet_balances (insert_balance now a b asset st) =
     wallet_balances st @
       [\<lparr>wb_id = int (length (wallet_balances st)) + 1, address = a, balance = numeric_18_8 b,
         asset_type = asset, updated_at = now\<rparr>]"
  "transactions (insert_balance now a b asset st) = transactions st"
  "taxRefunds (insert_balance now a b asset st) = taxRefunds st"
  "steps (insert_balance now a b asset st) = steps st @ [Insert_balance]"
  by (simp_all add: insert_balance_def)

lemma createTransaction_simps [simp]:
  "wallet_balances (snd (createTransaction now d st)) = wallet_balances st"
  "transactions (snd (createTransaction now d st)) = transactions st @ [fst (createTransaction now d st)]"
  "taxRefunds (snd (createTransaction now d st)) = taxRefunds st"
  "steps (snd (createTransaction now d st)) = steps st @ [Create_transaction]"
  by (simp_all add: createTransaction_def Let_def)

lemma select_balance_simps [simp]:
  "snd (select_balance a st) = did Select_balance st"
  "fst (select_balance a st) = map balance (filter (\<lambda>r. address r = a) (wallet_balances st))"
  by (simp_all add: select_balance_def)

lemma first_balance:
  "(case map balance (filter (\<lambda>r. address r = fromAddress) (wallet_balances st)) of [] \<Rightarrow> d | b # _ \<Rightarrow> b) =
   (case stored_balance st of None \<Rightarrow> d | Some b \<Rightarrow> b)"
  by (cases "filter (\<lambda>r. address r = fromAddress) (wallet_balances st)") (simp_all add: stored_balance_def)


lemma falsy_amount_Some: "amount body = Some a \<Longrightarrow> 0 < a \<Longrightarrow> \<not> falsy_amount body"
  by (simp add: falsy_amount_def)

lemma send_XP:
  assumes "toAddress body = Some to" "to \<noteq> []" "amount body = Some a" "0 < a"
    "assetType body = Some ''XP''"
  shows "\<exists>t st3. send now h body st =
     (let cur = (case stored_balance st of None \<Rightarrow> 1 | Some b \<Rightarrow> b)
      in if cur < a then (Inl (InsufficientBalance cur a), did Check_sufficient (did Select_balance st))
         else (Inr (Balance_updated t cur (cur - a)), update_balance now (cur - a) fromAddress st3))
      \<and> wallet_balances st3 = wallet_balances st
      \<and> transactions st3 = transactions st @ [t]
      \<and> taxRefunds st3 = taxRefunds st
      \<and> steps st3 = steps st @ [Select_balance, Check_sufficient, Create_transaction]"
proof -
  let ?st2 = "did Check_sufficient (did Select_balance st)"
  let ?d = "\<lparr>d_userId = 1, d_fromAddress = fromAddress, d_toAddress = to, d_assetType = ''XP'',
             d_amount = a, d_txHash = h, d_status = ''completed'', d_transactionType = ''send''\<rparr>"
  let ?t = "fst (createTransaction now ?d ?st2)"
  let ?st3 = "snd (createTransaction now ?d ?st2)"
  have "send now h body st =
     (let cur = (case stored_balance st of None \<Rightarrow> 1 | Some b \<Rightarrow> b)
      in if cur < a then (Inl (InsufficientBalance cur a), ?st2)
         else (Inr (Balance_updated ?t cur (cur - a)), update_balance now (cur - a) fromAddress ?st3))"
    using assms by (simp add: send_def Let_def split_beta first_balance falsy_amount_Some)
  moreover have "wallet_balances ?st3 = wallet_balances st" by simp
  moreover have "transactions ?st3 = transactions st @ [?t]" by simp
  moreover have "taxRefunds ?st3 = taxRefunds st" by simp
  moreover have "steps ?st3 = steps st @ [Select_balance, Check_sufficient, Create_transaction]"
    by simp
  ultimately show ?thesis by blast
qed


lemma stored_update:
  "stored_balance (update_balance now b fromAddress st) =
     (case stored_balance st of None \<Rightarrow> None | Some _ \<Rightarrow> Some (numeric_18_8 b))"
proof -
  have "\<And>rows. (case filter (\<lambda>r. address r = fromAddress)
            (map (\<lambda>r. if address r = fromAddress
                      then r\<lparr>balance := numeric_18_8 b, updated_at := now\<rparr> else r) rows)
          of [] \<Rightarrow> None | r # _ \<Rightarrow> Some (balance r)) =
        (case (case filter (\<lambda>r. address r = fromAddress) rows of [] \<Rightarrow> None | r # _ \<Rightarrow> Some (balance r))
           of None \<Rightarrow> None | Some _ \<Rightarrow> Some (numeric_18_8 b))"
    subgoal for rows by (induction rows) simp_all
    done
  then show ?thesis by (simp add: stored_balance_def)
qed

lemma stored_cong:
  "wallet_balances st' = wallet_balances st \<Longrightarrow> stored_balance st' = stored_balance st"
  by (simp add: stored_balance_def)




lemma bn_did [simp]: "balances_nonneg (did s st) = balances_nonneg st"
  by (simp add: balances_nonneg_def)

lemma bn_create [simp]: "balances_nonneg (snd (createTransaction now d st)) = balances_nonneg st"
  by (simp add: balances_nonneg_def)

lemma sb_did [simp]: "stored_balance (did s st) = stored_balance st"
  by (simp add: stored_balance_def)

lemma sb_create [simp]: "stored_balance (snd (createTransaction now d st)) = stored_balance st"
  by (simp add: stored_balance_def)









lemma send_exact_stored:
  assumes "toAddress body = Some to" "to \<noteq> []" "amount body = Some b" "0 < b"
    "assetType body = Some ''XP''" "stored_balance st = Some b"
  shows "(\<exists>t. fst (send now h body st) = Inr (Balance_updated t b 0))
         \<and> stored_balance (snd (send now h body st)) = Some 0"
proof -
  from send_XP [OF assms(1-5), of now h st] assms(6)
  obtain t st3 where s: "send now h body st =
      (Inr (Balance_updated t b 0), update_balance now 0 fromAddress st3)"
    and w: "wallet_balances st3 = wallet_balances st"
    by (auto simp add: Let_def)
  from stored_cong [OF w] assms(6) have "stored_balance st3 = Some b" by simp
  moreover have "numeric_18_8 0 = 0"
    using numeric_of_int [of 0] by simp
  ultimately have "stored_balance (update_balance now 0 fromAddress st3) = Some 0"
    by (simp add: stored_update)
  with s show ?thesis by simp
qed


section \<open>Lemmas on \<open>processTaxRefund\<close>\<close>

lemma returning_first:
  "(case filter (\<lambda>r. tr_id r = i)
           (map (\<lambda>r. if tr_id r = i then r\<lparr>tr_status := s, tr_processedAt := Some now\<rparr> else r) rows)
    of [] \<Rightarrow> None | x # _ \<Rightarrow> Some x) =
   map_option (\<lambda>r. r\<lparr>tr_status := s, tr_processedAt := Some now\<rparr>) (find (\<lambda>r. tr_id r = i) rows)"
  by (induction rows) simp_all

lemma update_none:
  "find (\<lambda>r. tr_id r = i) rows = None \<Longrightarrow>
   map (\<lambda>r. if tr_id r = i then r\<lparr>tr_status := s, tr_processedAt := Some now\<rparr> else r) rows = rows"
  by (induction rows) (simp_all split: if_splits)

lemma find_updated:
  "find (\<lambda>r. tr_id r = i)
     (map (\<lambda>r. if tr_id r = i then r\<lparr>tr_status := s, tr_processedAt := Some now\<rparr> else r) rows) =
   map_option (\<lambda>r. r\<lparr>tr_status := s, tr_processedAt := Some now\<rparr>) (find (\<lambda>r. tr_id r = i) rows)"
  by (induction rows) simp_all

lemma others_kept:
  "filter (\<lambda>r. tr_id r \<noteq> i)
     (map (\<lambda>r. if tr_id r = i then r\<lparr>tr_status := s, tr_processedAt := Some now\<rparr> else r) rows) =
   filter (\<lambda>r. tr_id r \<noteq> i) rows"
  by (induction rows) simp_all

lemma processTaxRefund_eq:
  "int4 i \<Longrightarrow> processTaxRefund now (Some i) a st =
     Inr (map_option (\<lambda>r. r\<lparr>tr_status := (if a = ''approve'' then ''approved'' else ''rejected''),
                              tr_processedAt := Some now\<rparr>)
            (find (\<lambda>r. tr_id r = i) (taxRefunds st)),
          st\<lparr>taxRefunds :=
               map (\<lambda>r. if tr_id r = i
                         then r\<lparr>tr_status := (if a = ''approve'' then ''approved'' else ''rejected''),
                                tr_processedAt := Some now\<rparr>
                         else r) (taxRefunds st)\<rparr>)"
  unfolding processTaxRefund_def Let_def returning_first by simp

lemma processTaxRefund_Inl: "processTaxRefund now rid a st = Inl f \<Longrightarrow> f = Query_failed"
  by (auto simp add: processTaxRefund_def Let_def split: option.splits if_splits)

lemma processTaxRefund_Inr:
  "(\<exists>res st'. processTaxRefund now rid a st = Inr (res, st')) = (\<exists>i. rid = Some i \<and> int4 i)"
  by (auto simp add: processTaxRefund_def Let_def split: option.splits if_splits)

section \<open>The tax estimate\<close>

text \<open>
  Claim C1, amended. For all numeric \<open>grossIncome\<close>, \<open>taxPaid\<close> and \<open>deductions\<close>,
  read as the finite doubles \<open>G\<close>, \<open>P\<close> and \<open>D\<close>, the estimate succeeds and
  computes in double precision, each operation rounded to the nearest double:
  \<open>taxableIncome = max(0, G - D)\<close>, one flat rate chosen by the bracket of the gross
  income (the doubles nearest to 0.06, 0.15, 0.24, 0.35 and 0.38),
  \<open>calculatedTax = taxableIncome * rate\<close>, and as refund amount (\<open>estimatedAmount\<close>)
  the value \<open>max(0, P - calculatedTax)\<close> rounded to the nearest integer, a half
  rounded up. For a gross income of 10,000,000, tax paid 1,000,000 and no deductions, the
  rate is 6 per cent, the calculated tax 600,000 and the refund amount 400,000.
\<close>

theorem estimate_flat_rate_rounded:
  assumes "to_double g = Fin G" and "to_double p = Fin P" and "to_double d = Fin D"
  shows "(\<exists>e. estimate \<lparr>grossIncome = Decimal g, taxPaid = Decimal p, deductions = Decimal d,
                         refundType = t\<rparr> = Inr e
           \<and> taxableIncome e = Math_max (Fin 0) (to_double (G - D))
           \<and> calculatedTax e =
               js_mul (taxableIncome e)
                 (if G \<le> 12000000 then to_double (6 / 100)
                  else if G \<le> 46000000 then to_double (15 / 100)
                  else if G \<le> 88000000 then to_double (24 / 100)
                  else if G \<le> 150000000 then to_double (35 / 100)
                  else to_double (38 / 100))
           \<and> estimatedAmount e = Math_round (Math_max (Fin 0) (js_sub (Fin P) (calculatedTax e))))
         \<and> taxRate (Fin 10000000) = to_double (6 / 100)
         \<and> estimate \<lparr>grossIncome = Decimal 10000000, taxPaid = Decimal 1000000,
                      deductions = Decimal 0, refundType = ''income_tax''\<rparr> =
             Inr \<lparr>estimatedAmount = Fin 400000, processingTime = Days_3_5, eligibilityScore = 90,
                   taxableIncome = Fin 10000000, calculatedTax = Fin 600000,
                   effectiveRate = Fin 6\<rparr>"
proof -
  have r: "estimate \<lparr>grossIncome = Decimal g, taxPaid = Decimal p, deductions = Decimal d,
                     refundType = t\<rparr> =
     Inr \<lparr>estimatedAmount =
             Math_round (Math_max (Fin 0)
               (js_sub (Fin P) (js_mul (Math_max (Fin 0) (to_double (G - D))) (taxRate (Fin G))))),
           processingTime =
             (if js_gt (Math_max (Fin 0)
               (js_sub (Fin P) (js_mul (Math_max (Fin 0) (to_double (G - D))) (taxRate (Fin G)))))
                 (Fin 5000000) then Days_5_7 else Days_3_5),
           eligibilityScore = eligibility (Fin G) (Fin D) t,
           taxableIncome = Math_max (Fin 0) (to_double (G - D)),
           calculatedTax = js_mul (Math_max (Fin 0) (to_double (G - D))) (taxRate (Fin G)),
           effectiveRate =
             js_mul (js_div (js_mul (Math_max (Fin 0) (to_double (G - D))) (taxRate (Fin G)))
                       (Fin G)) (Fin 100)\<rparr>"
    using estimate_readable [of "Decimal g" "Fin G" "Decimal p" "Fin P" "Decimal d" "Fin D" t] assms
    by (simp only: parseFloat.simps js_or0_Fin js_sub.simps simp_thms)
  have general: "\<exists>e. estimate \<lparr>grossIncome = Decimal g, taxPaid = Decimal p, deductions = Decimal d,
                         refundType = t\<rparr> = Inr e
           \<and> taxableIncome e = Math_max (Fin 0) (to_double (G - D))
           \<and> calculatedTax e =
               js_mul (taxableIncome e)
                 (if G \<le> 12000000 then to_double (6 / 100)
                  else if G \<le> 46000000 then to_double (15 / 100)
                  else if G \<le> 88000000 then to_double (24 / 100)
                  else if G \<le> 150000000 then to_double (35 / 100)
                  else to_double (38 / 100))
           \<and> estimatedAmount e = Math_round (Math_max (Fin 0) (js_sub (Fin P) (calculatedTax e)))"
    unfolding r taxRate_Fin
    by (simp only: sum.inject estimate_reply.simps simp_thms ex_simps)
  have rate: "taxRate (Fin 10000000) = to_double (6 / 100)"
    by (simp add: taxRate_Fin)
  have example: "estimate \<lparr>grossIncome = Decimal 10000000, taxPaid = Decimal 1000000,
                      deductions = Decimal 0, refundType = ''income_tax''\<rparr> =
             Inr \<lparr>estimatedAmount = Fin 400000, processingTime = Days_3_5, eligibilityScore = 90,
                   taxableIncome = Fin 10000000, calculatedTax = Fin 600000,
                   effectiveRate = Fin 6\<rparr>"
    by code_simp
  from general rate example show ?thesis by (intro conjI)
qed

text \<open>
  Claim C1 at a concrete input, where the rounding of doubles shows: for a gross income
  of 35 and tax paid 4.6 the calculated tax is the double 2.1 and the difference the
  double just below 2.5, so the refund amount is 2.
\<close>

theorem estimate_flat_rate_rounded_witness:
  "to_double 35 = Fin 35
   \<and> to_double (46 / 10) = Fin (2589569785738035 / 562949953421312)
   \<and> to_double 0 = Fin 0
   \<and> (\<exists>e. estimate \<lparr>grossIncome = Decimal 35, taxPaid = Decimal (46 / 10), deductions = Decimal 0,
                       refundType = []\<rparr> = Inr e
         \<and> taxableIncome e = Fin 35
         \<and> calculatedTax e = Fin (4728779608739021 / 2251799813685248)
         \<and> estimatedAmount e = Fin 2)"
proof -
  have g: "to_double 35 = Fin 35" by code_simp
  have p: "to_double (46 / 10) = Fin (2589569785738035 / 562949953421312)" by code_simp
  have d: "to_double 0 = Fin 0" by code_simp
  have t: "Math_max (Fin 0) (to_double (35 - 0)) = Fin 35" by code_simp
  have c: "js_mul (Fin 35)
             (if (35::rat) \<le> 12000000 then to_double (6 / 100)
              else if (35::rat) \<le> 46000000 then to_double (15 / 100)
              else if (35::rat) \<le> 88000000 then to_double (24 / 100)
              else if (35::rat) \<le> 150000000 then to_double (35 / 100)
              else to_double (38 / 100)) = Fin (4728779608739021 / 2251799813685248)"
    by code_simp
  have a: "Math_round (Math_max (Fin 0)
             (js_sub (Fin (2589569785738035 / 562949953421312))
                (Fin (4728779608739021 / 2251799813685248)))) = Fin 2"
    by code_simp
  from estimate_flat_rate_rounded [OF g p d, of "[]"]
  obtain e where "estimate \<lparr>grossIncome = Decimal 35, taxPaid = Decimal (46 / 10),
        deductions = Decimal 0, refundType = []\<rparr> = Inr e"
    and "taxableIncome e = Math_max (Fin 0) (to_double (35 - 0))"
    and "calculatedTax e =
               js_mul (taxableIncome e)
                 (if (35::rat) \<le> 12000000 then to_double (6 / 100)
                  else if (35::rat) \<le> 46000000 then to_double (15 / 100)
                  else if (35::rat) \<le> 88000000 then to_double (24 / 100)
                  else if (35::rat) \<le> 150000000 then to_double (35 / 100)
                  else to_double (38 / 100))"
    and "estimatedAmount e =
           Math_round (Math_max (Fin 0)
             (js_sub (Fin (2589569785738035 / 562949953421312)) (calculatedTax e)))"
    by blast
  then have "estimate \<lparr>grossIncome = Decimal 35, taxPaid = Decimal (46 / 10),
        deductions = Decimal 0, refundType = []\<rparr> = Inr e
         \<and> taxableIncome e = Fin 35
         \<and> calculatedTax e = Fin (4728779608739021 / 2251799813685248)
         \<and> estimatedAmount e = Fin 2"
    by (simp only: t c a simp_thms)
  then have "\<exists>e. estimate \<lparr>grossIncome = Decimal 35, taxPaid = Decimal (46 / 10),
        deductions = Decimal 0, refundType = []\<rparr> = Inr e
         \<and> taxableIncome e = Fin 35
         \<and> calculatedTax e = Fin (4728779608739021 / 2251799813685248)
         \<and> estimatedAmount e = Fin 2" ..
  with g p d show ?thesis by (intro conjI)
qed

text \<open>
  Claim C1 as stated fails: the refund amount that the estimate returns is rounded to an
  integer. For a gross income of 10, tax paid 1 and no deductions the calculated tax is
  the double 0.6 and \<open>max(0, taxPaid - calculatedTax)\<close> the double 0.4; the handler
  returns 0.
\<close>

theorem estimate_refund_not_rounded_counterexample:
  "estimate \<lparr>grossIncome = Decimal 10, taxPaid = Decimal 1, deductions = Decimal 0,
             refundType = ''income_tax''\<rparr> =
     Inr \<lparr>estimatedAmount = Fin 0, processingTime = Days_3_5, eligibilityScore = 90,
           taxableIncome = Fin 10, calculatedTax = Fin (5404319552844595 / 9007199254740992),
           effectiveRate = Fin 6\<rparr>
   \<and> Math_max (Fin 0) (js_sub (Fin 1) (Fin (5404319552844595 / 9007199254740992))) =
       Fin (3602879701896397 / 9007199254740992)
   \<and> Fin 0 \<noteq> Fin (3602879701896397 / 9007199254740992)"
  by code_simp

text \<open>
  Claim C8, amended. The estimate is a function of the request body alone (it neither
  reads nor writes the database, and the same body gives the same reply). It fails
  exactly when a field of the body cannot be converted to a string, and then with the
  handler's general failure (status 500), never with \<open>InvalidArgument\<close>. A field in
  which \<open>parseFloat\<close> reads no number is no failure: it counts as 0. For all numeric
  inputs the estimate succeeds.
\<close>

theorem estimate_fails_only_unreadable:
  "(estimate body = Inl Estimate_failed) =
     (grossIncome body = Unreadable \<or> taxPaid body = Unreadable \<or> deductions body = Unreadable)
   \<and> (\<exists>e. estimate body = Inr e) =
     (grossIncome body \<noteq> Unreadable \<and> taxPaid body \<noteq> Unreadable \<and> deductions body \<noteq> Unreadable)
   \<and> estimate body \<noteq> Inl InvalidArgument
   \<and> estimate (body\<lparr>grossIncome := Not_numeric\<rparr>) = estimate (body\<lparr>grossIncome := Decimal 0\<rparr>)
   \<and> estimate (body\<lparr>taxPaid := Not_numeric\<rparr>) = estimate (body\<lparr>taxPaid := Decimal 0\<rparr>)
   \<and> estimate (body\<lparr>deductions := Not_numeric\<rparr>) = estimate (body\<lparr>deductions := Decimal 0\<rparr>)
   \<and> (\<exists>e. estimate \<lparr>grossIncome = Decimal g, taxPaid = Decimal p, deductions = Decimal d,
                       refundType = t\<rparr> = Inr e)"
proof -
  have z: "to_double 0 = Fin 0" by (simp add: to_double_def)
  have a: "(estimate body = Inl Estimate_failed) =
     (grossIncome body = Unreadable \<or> taxPaid body = Unreadable \<or> deductions body = Unreadable)"
    by (rule estimate_unreadable)
  have b: "(\<exists>e. estimate body = Inr e) =
     (grossIncome body \<noteq> Unreadable \<and> taxPaid body \<noteq> Unreadable \<and> deductions body \<noteq> Unreadable)"
  proof (cases "estimate body")
    case (Inl f)
    with estimate_Inl [OF Inl] a show ?thesis by simp
  next
    case (Inr e)
    with a show ?thesis by auto
  qed
  have c: "estimate body \<noteq> Inl InvalidArgument"
    using estimate_Inl [of body InvalidArgument] by auto
  have d: "estimate (body\<lparr>grossIncome := Not_numeric\<rparr>) = estimate (body\<lparr>grossIncome := Decimal 0\<rparr>)"
    "estimate (body\<lparr>taxPaid := Not_numeric\<rparr>) = estimate (body\<lparr>taxPaid := Decimal 0\<rparr>)"
    "estimate (body\<lparr>deductions := Not_numeric\<rparr>) = estimate (body\<lparr>deductions := Decimal 0\<rparr>)"
    by (simp_all add: estimate_def z Let_def split: option.splits)
  have e: "\<exists>e. estimate \<lparr>grossIncome = Decimal g, taxPaid = Decimal p, deductions = Decimal d,
                       refundType = t\<rparr> = Inr e"
    by (simp add: estimate_def Let_def)
  from a b c d e show ?thesis by (intro conjI)
qed

text \<open>
  Claim C8 as stated fails: on a body whose three fields are all non-numeric the estimate
  does not fail with \<open>InvalidArgument\<close>; it succeeds, with every amount 0.
\<close>

theorem estimate_non_numeric_counterexample:
  "estimate \<lparr>grossIncome = Not_numeric, taxPaid = Not_numeric, deductions = Not_numeric,
             refundType = []\<rparr> =
     Inr \<lparr>estimatedAmount = Fin 0, processingTime = Days_3_5, eligibilityScore = 85,
           taxableIncome = Fin 0, calculatedTax = Fin 0, effectiveRate = NaN\<rparr>
   \<and> estimate \<lparr>grossIncome = Not_numeric, taxPaid = Not_numeric, deductions = Not_numeric,
               refundType = []\<rparr> \<noteq> Inl InvalidArgument"
  by code_simp

section \<open>The balance ledger\<close>










text \<open>
  Claim C6, amended. A successful XP send performs its steps in this order: it reads the
  current balance, checks that it suffices, records the transaction, and then writes the
  new balance.
\<close>

theorem send_step_order:
  assumes "send now h body st = (Inr (Balance_updated t p n), st')"
  shows "steps st' = steps st @ [Select_balance, Check_sufficient, Create_transaction, Update_balance]"
  using assms
  by (auto simp add: send_def Let_def split_beta split: if_splits option.splits)

text \<open>
  Claim C6 at a concrete input: a send of 2 against a stored balance of 3.
\<close>

theorem send_step_order_witness:
  "send 1 ''h1'' (xp_send 2) (wallet_db 3) =
     (Inr (Balance_updated
            \<lparr>tx_id = 1, tx_userId = 1, tx_fromAddress = fromAddress, tx_toAddress = ''0xabc'',
             tx_assetType = ''XP'', tx_amount = 2, tx_fee = Some 0, tx_txHash = ''h1'',
             tx_blockNumber = None, tx_status = ''completed'', tx_transactionType = ''send'',
             tx_merchantInfo = None, tx_createdAt = 1, tx_confirmedAt = None\<rparr> 3 1),
      snd (send 1 ''h1'' (xp_send 2) (wallet_db 3)))
   \<and> steps (snd (send 1 ''h1'' (xp_send 2) (wallet_db 3))) =
     [Select_balance, Check_sufficient, Create_transaction, Update_balance]"
proof -
  have e: "send 1 ''h1'' (xp_send 2) (wallet_db 3) =
     (Inr (Balance_updated
            \<lparr>tx_id = 1, tx_userId = 1, tx_fromAddress = fromAddress, tx_toAddress = ''0xabc'',
             tx_assetType = ''XP'', tx_amount = 2, tx_fee = Some 0, tx_txHash = ''h1'',
             tx_blockNumber = None, tx_status = ''completed'', tx_transactionType = ''send'',
             tx_merchantInfo = None, tx_createdAt = 1, tx_confirmedAt = None\<rparr> 3 1),
      snd (send 1 ''h1'' (xp_send 2) (wallet_db 3)))"
    by code_simp
  have "steps (wallet_db 3) = []" by (simp add: wallet_db_def)
  with send_step_order [OF e] have "steps (snd (send 1 ''h1'' (xp_send 2) (wallet_db 3))) =
     [Select_balance, Check_sufficient, Create_transaction, Update_balance]"
    by simp
  with e show ?thesis by (intro conjI)
qed

text \<open>
  Claim C6 as stated fails: in a successful send of 2 against a stored balance of 3 the
  steps are not \<^emph>\<open>read, check, write, record\<close>.
\<close>

theorem send_step_order_counterexample:
  "fst (send 1 ''h1'' (xp_send 2) (wallet_db 3)) =
     Inr (Balance_updated
            \<lparr>tx_id = 1, tx_userId = 1, tx_fromAddress = fromAddress, tx_toAddress = ''0xabc'',
             tx_assetType = ''XP'', tx_amount = 2, tx_fee = Some 0, tx_txHash = ''h1'',
             tx_blockNumber = None, tx_status = ''completed'', tx_transactionType = ''send'',
             tx_merchantInfo = None, tx_createdAt = 1, tx_confirmedAt = None\<rparr> 3 1)
   \<and> steps (snd (send 1 ''h1'' (xp_send 2) (wallet_db 3))) \<noteq>
       [Select_balance, Check_sufficient, Update_balance, Create_transaction]"
  by code_simp

text \<open>
  Claim C10, evaluated where it fails. With no row for the wallet, an XP send of exactly
  the current balance (the default, 1) succeeds and reports a new balance of 0, but no
  balance is stored: the \<open>UPDATE\<close> matches no row. A second send of 1 succeeds in
  the same way. (Where a row exists the claim holds: lemma \<open>send_exact_stored\<close>.)
\<close>

theorem send_exact_default_not_stored:
  "fst (send 1 ''h1'' (xp_send 1) empty_db) =
     Inr (Balance_updated
            \<lparr>tx_id = 1, tx_userId = 1, tx_fromAddress = fromAddress, tx_toAddress = ''0xabc'',
             tx_assetType = ''XP'', tx_amount = 1, tx_fee = Some 0, tx_txHash = ''h1'',
             tx_blockNumber = None, tx_status = ''completed'', tx_transactionType = ''send'',
             tx_merchantInfo = None, tx_createdAt = 1, tx_confirmedAt = None\<rparr> 1 0)
   \<and> wallet_balances (snd (send 1 ''h1'' (xp_send 1) empty_db)) = []
   \<and> stored_balance (snd (send 1 ''h1'' (xp_send 1) empty_db)) = None
   \<and> fst (send 2 ''h2'' (xp_send 1) (snd (send 1 ''h1'' (xp_send 1) empty_db))) =
     Inr (Balance_updated
            \<lparr>tx_id = 2, tx_userId = 1, tx_fromAddress = fromAddress, tx_toAddress = ''0xabc'',
             tx_assetType = ''XP'', tx_amount = 1, tx_fee = Some 0, tx_txHash = ''h2'',
             tx_blockNumber = None, tx_status = ''completed'', tx_transactionType = ''send'',
             tx_merchantInfo = None, tx_createdAt = 2, tx_confirmedAt = None\<rparr> 1 0)"
  by code_simp

section \<open>Listing transactions\<close>

text \<open>
  Claim C7, amended. For every user id within the range of the integer column, listing
  the user's transactions returns a finite sequence holding exactly that user's
  transactions, in the order in which the table yields them: no ordering is applied. For
  a user id outside that range the query fails.
\<close>

theorem transactions_by_user_table_order:
  "(int4 userId \<longrightarrow>
      (\<exists>ts. getTransactionsByUserId userId st = Inr ts
         \<and> set ts = {t \<in> set (transactions st). tx_userId t = userId}
         \<and> subseq ts (transactions st)))
   \<and> (\<not> int4 userId \<longrightarrow> getTransactionsByUserId userId st = Inl Query_failed)"
  by (simp add: getTransactionsByUserId_def)

text \<open>
  Claim C7 at concrete inputs: the listing of user 1 after a deposit and a send, and the
  listing for an id that is not a four-byte integer.
\<close>

theorem transactions_by_user_table_order_witness:
  "int4 1 \<and> \<not> int4 2147483648
   \<and> (\<exists>ts. getTransactionsByUserId 1
              (final [Deposit 1 ''h1'' (xp_deposit 5), Send 2 ''h2'' (xp_send 1)] empty_db) = Inr ts
         \<and> set ts = {t \<in> set (transactions
              (final [Deposit 1 ''h1'' (xp_deposit 5), Send 2 ''h2'' (xp_send 1)] empty_db)).
                      tx_userId t = 1}
         \<and> subseq ts (transactions
              (final [Deposit 1 ''h1'' (xp_deposit 5), Send 2 ''h2'' (xp_send 1)] empty_db)))
   \<and> getTransactionsByUserId 2147483648
       (final [Deposit 1 ''h1'' (xp_deposit 5), Send 2 ''h2'' (xp_send 1)] empty_db) = Inl Query_failed"
proof -
  have a: "int4 1" and b: "\<not> int4 2147483648" by (simp_all add: int4_def)
  from transactions_by_user_table_order
    [of 1 "final [Deposit 1 ''h1'' (xp_deposit 5), Send 2 ''h2'' (xp_send 1)] empty_db"]
    transactions_by_user_table_order
    [of 2147483648 "final [Deposit 1 ''h1'' (xp_deposit 5), Send 2 ''h2'' (xp_send 1)] empty_db"]
    a b
  show ?thesis by blast
qed

text \<open>
  Claim C7 as stated fails: after two deposits, at times 1 and 2, the listing of user 1
  has the older transaction first.
\<close>

theorem transactions_by_user_table_order_counterexample:
  "map_sum id (map tx_createdAt)
     (getTransactionsByUserId 1
        (final [Deposit 1 ''h1'' (xp_deposit 5), Deposit 2 ''h2'' (xp_deposit 5)] empty_db)) =
     Inr [1, 2]
   \<and> \<not> (case getTransactionsByUserId 1
              (final [Deposit 1 ''h1'' (xp_deposit 5), Deposit 2 ''h2'' (xp_deposit 5)] empty_db) of
          Inl f \<Rightarrow> False
        | Inr ts \<Rightarrow> most_recent_first ts)"
  by code_simp

section \<open>Processing a tax refund\<close>

text \<open>
  Claim C4, amended. \<open>process(id, action)\<close> looks nothing up and checks no status: it
  never fails with \<open>NotFound\<close> or \<open>InvalidTransition\<close>, and it succeeds exactly when
  the id is an integer within the range of the \<open>id\<close> column (otherwise the query
  fails). For such an id: when no refund has it, the call returns no refund and leaves
  the table as it is; on a pending refund, \<open>process(id, "approve")\<close> returns and stores
  the refund with status approved and \<open>processedAt\<close> set, and changes nothing else; a
  second call on the same id succeeds too, and sets the status and \<open>processedAt\<close>
  again.
\<close>

theorem process_no_lookup_no_check:
  "processTaxRefund now rid a st \<noteq> Inl NotFound
   \<and> processTaxRefund now rid a st \<noteq> Inl InvalidTransition
   \<and> (\<exists>res st'. processTaxRefund now rid a st = Inr (res, st')) = (\<exists>j. rid = Some j \<and> int4 j)
   \<and> (int4 i \<and> find (\<lambda>r. tr_id r = i) (taxRefunds st) = None \<longrightarrow>
        processTaxRefund now (Some i) a st = Inr (None, st))
   \<and> (int4 i \<and> find (\<lambda>r. tr_id r = i) (taxRefunds st) = Some r \<and> tr_status r = ''pending'' \<longrightarrow>
        (\<exists>st'. processTaxRefund now (Some i) ''approve'' st =
                 Inr (Some (r\<lparr>tr_status := ''approved'', tr_processedAt := Some now\<rparr>), st')
           \<and> find (\<lambda>x. tr_id x = i) (taxRefunds st') =
               Some (r\<lparr>tr_status := ''approved'', tr_processedAt := Some now\<rparr>)
           \<and> filter (\<lambda>x. tr_id x \<noteq> i) (taxRefunds st') = filter (\<lambda>x. tr_id x \<noteq> i) (taxRefunds st)
           \<and> wallet_balances st' = wallet_balances st
           \<and> transactions st' = transactions st
           \<and> (\<exists>st''. processTaxRefund now' (Some i) a' st' =
                 Inr (Some (r\<lparr>tr_status := (if a' = ''approve'' then ''approved'' else ''rejected''),
                             tr_processedAt := Some now'\<rparr>), st'')
                \<and> find (\<lambda>x. tr_id x = i) (taxRefunds st'') =
                    Some (r\<lparr>tr_status := (if a' = ''approve'' then ''approved'' else ''rejected''),
                            tr_processedAt := Some now'\<rparr>))))"
proof -
  have a: "processTaxRefund now rid a st \<noteq> Inl NotFound"
    using processTaxRefund_Inl [of now rid a st NotFound] by auto
  have b: "processTaxRefund now rid a st \<noteq> Inl InvalidTransition"
    using processTaxRefund_Inl [of now rid a st InvalidTransition] by auto
  note c = processTaxRefund_Inr [of now rid a st]
  have d: "int4 i \<and> find (\<lambda>r. tr_id r = i) (taxRefunds st) = None \<longrightarrow>
        processTaxRefund now (Some i) a st = Inr (None, st)"
    by (simp add: processTaxRefund_eq update_none)
  have e: "int4 i \<and> find (\<lambda>r. tr_id r = i) (taxRefunds st) = Some r \<and> tr_status r = ''pending'' \<longrightarrow>
        (\<exists>st'. processTaxRefund now (Some i) ''approve'' st =
                 Inr (Some (r\<lparr>tr_status := ''approved'', tr_processedAt := Some now\<rparr>), st')
           \<and> find (\<lambda>x. tr_id x = i) (taxRefunds st') =
               Some (r\<lparr>tr_status := ''approved'', tr_processedAt := Some now\<rparr>)
           \<and> filter (\<lambda>x. tr_id x \<noteq> i) (taxRefunds st') = filter (\<lambda>x. tr_id x \<noteq> i) (taxRefunds st)
           \<and> wallet_balances st' = wallet_balances st
           \<and> transactions st' = transactions st
           \<and> (\<exists>st''. processTaxRefund now' (Some i) a' st' =
                 Inr (Some (r\<lparr>tr_status := (if a' = ''approve'' then ''approved'' else ''rejected''),
                             tr_processedAt := Some now'\<rparr>), st'')
                \<and> find (\<lambda>x. tr_id x = i) (taxRefunds st'') =
                    Some (r\<lparr>tr_status := (if a' = ''approve'' then ''approved'' else ''rejected''),
                            tr_processedAt := Some now'\<rparr>)))"
    by (simp add: processTaxRefund_eq find_updated others_kept)
  from a b c d e show ?thesis by (intro conjI)
qed

text \<open>
  Claim C4 at a concrete input: a table with the pending refund 7, processed under the
  unknown id 8, then approved and rejected under its own id.
\<close>

theorem process_no_lookup_no_check_witness:
  "int4 8 \<and> int4 7
   \<and> find (\<lambda>r. tr_id r = 8) (taxRefunds (refund_db refund7)) = None
   \<and> processTaxRefund 20 (Some 8) ''approve'' (refund_db refund7) = Inr (None, refund_db refund7)
   \<and> find (\<lambda>r. tr_id r = 7) (taxRefunds (refund_db refund7)) = Some refund7
   \<and> tr_status refund7 = ''pending''
   \<and> (\<exists>st'. processTaxRefund 20 (Some 7) ''approve'' (refund_db refund7) =
               Inr (Some (refund7\<lparr>tr_status := ''approved'', tr_processedAt := Some 20\<rparr>), st')
         \<and> find (\<lambda>x. tr_id x = 7) (taxRefunds st') =
               Some (refund7\<lparr>tr_status := ''approved'', tr_processedAt := Some 20\<rparr>)
         \<and> (\<exists>st''. processTaxRefund 30 (Some 7) ''reject'' st' =
               Inr (Some (refund7\<lparr>tr_status := ''rejected'', tr_processedAt := Some 30\<rparr>), st'')
              \<and> find (\<lambda>x. tr_id x = 7) (taxRefunds st'') =
               Some (refund7\<lparr>tr_status := ''rejected'', tr_processedAt := Some 30\<rparr>)))"
proof -
  have i8: "int4 8" and i7: "int4 7" by (simp_all add: int4_def)
  have a: "find (\<lambda>r. tr_id r = 8) (taxRefunds (refund_db refund7)) = None"
    by (simp add: refund_db_def refund7_def)
  have b: "find (\<lambda>r. tr_id r = 7) (taxRefunds (refund_db refund7)) = Some refund7"
    by (simp add: refund_db_def refund7_def)
  have c: "tr_status refund7 = ''pending''"
    by (simp add: refund7_def)
  from process_no_lookup_no_check [of 20 "Some 8" "''approve''" "refund_db refund7" 8] i8 a
  have d: "processTaxRefund 20 (Some 8) ''approve'' (refund_db refund7) = Inr (None, refund_db refund7)"
    by simp
  from process_no_lookup_no_check [of 20 "Some 7" "''approve''" "refund_db refund7" 7 refund7 30 "''reject''"]
    i7 b c
  have e: "\<exists>st'. processTaxRefund 20 (Some 7) ''approve'' (refund_db refund7) =
               Inr (Some (refund7\<lparr>tr_status := ''approved'', tr_processedAt := Some 20\<rparr>), st')
         \<and> find (\<lambda>x. tr_id x = 7) (taxRefunds st') =
               Some (refund7\<lparr>tr_status := ''approved'', tr_processedAt := Some 20\<rparr>)
         \<and> (\<exists>st''. processTaxRefund 30 (Some 7) ''reject'' st' =
               Inr (Some (refund7\<lparr>tr_status := ''rejected'', tr_processedAt := Some 30\<rparr>), st'')
              \<and> find (\<lambda>x. tr_id x = 7) (taxRefunds st'') =
               Some (refund7\<lparr>tr_status := ''rejected'', tr_processedAt := Some 30\<rparr>))"
    by auto
  from i8 i7 a d b c e show ?thesis by (intro conjI)
qed

text \<open>
  Claim C4 as stated fails: processing the unknown id 8 does not fail with
  \<open>NotFound\<close>, and rejecting the refund 7 after it has been approved does not fail with
  \<open>InvalidTransition\<close>: it succeeds and overwrites the status.
\<close>

theorem process_no_lookup_no_check_counterexample:
  "processTaxRefund 20 (Some 8) ''approve'' (refund_db refund7) = Inr (None, refund_db refund7)
   \<and> processTaxRefund 20 (Some 8) ''approve'' (refund_db refund7) \<noteq> Inl NotFound
   \<and> processTaxRefund 30 (Some 7) ''reject''
       (refund_db (refund7\<lparr>tr_status := ''approved'', tr_processedAt := Some 20\<rparr>)) =
     Inr (Some (refund7\<lparr>tr_status := ''rejected'', tr_processedAt := Some 30\<rparr>),
          refund_db (refund7\<lparr>tr_status := ''rejected'', tr_processedAt := Some 30\<rparr>))
   \<and> processTaxRefund 30 (Some 7) ''reject''
       (refund_db (refund7\<lparr>tr_status := ''approved'', tr_processedAt := Some 20\<rparr>)) \<noteq>
     Inl InvalidTransition"
  by (simp add: processTaxRefund_def Let_def refund_db_def refund7_def int4_def)

text \<open>
  Claim C9. For every refund id (an integer within the range of the \<open>id\<close> column) and
  every action string, \<open>processTaxRefund\<close> succeeds; every row with that id gets the
  status approved exactly when the action is \<open>"approve"\<close> and rejected for any other
  action, whatever its status was, and its \<open>processedAt\<close> is set to the time of the
  call; every other row, and every other table, is left as it is; the first updated row
  is returned.
\<close>

theorem process_sets_status:
  assumes "int4 i"
  shows "\<exists>res st'. processTaxRefund now (Some i) a st = Inr (res, st')
     \<and> res = map_option (\<lambda>r. r\<lparr>tr_status := (if a = ''approve'' then ''approved'' else ''rejected''),
                                 tr_processedAt := Some now\<rparr>)
               (find (\<lambda>r. tr_id r = i) (taxRefunds st))
     \<and> wallet_balances st' = wallet_balances st
     \<and> transactions st' = transactions st
     \<and> length (taxRefunds st') = length (taxRefunds st)
     \<and> (\<forall>k < length (taxRefunds st).
          (tr_id (taxRefunds st ! k) = i \<longrightarrow>
             taxRefunds st' ! k =
               (taxRefunds st ! k)\<lparr>tr_status := (if a = ''approve'' then ''approved'' else ''rejected''),
                                    tr_processedAt := Some now\<rparr>
             \<and> (tr_status (taxRefunds st' ! k) = ''approved'') = (a = ''approve'')
             \<and> (tr_status (taxRefunds st' ! k) = ''rejected'') = (a \<noteq> ''approve'')
             \<and> tr_processedAt (taxRefunds st' ! k) = Some now)
          \<and> (tr_id (taxRefunds st ! k) \<noteq> i \<longrightarrow> taxRefunds st' ! k = taxRefunds st ! k))"
  using assms by (simp add: processTaxRefund_eq)

text \<open>
  Claim C9 at a concrete input: the refund 7, already approved at time 20, processed at
  time 30 with the action \<open>"cancel"\<close>, is rejected with \<open>processedAt = 30\<close>.
\<close>

theorem process_sets_status_witness:
  "int4 7
   \<and> (0::nat) < length (taxRefunds (refund_db (refund7\<lparr>tr_status := ''approved'', tr_processedAt := Some 20\<rparr>)))
   \<and> tr_id (taxRefunds (refund_db (refund7\<lparr>tr_status := ''approved'', tr_processedAt := Some 20\<rparr>)) ! 0) = 7
   \<and> (\<exists>res st'. processTaxRefund 30 (Some 7) ''cancel''
                    (refund_db (refund7\<lparr>tr_status := ''approved'', tr_processedAt := Some 20\<rparr>)) =
                  Inr (res, st')
         \<and> res = Some (refund7\<lparr>tr_status := ''rejected'', tr_processedAt := Some 30\<rparr>)
         \<and> taxRefunds st' ! 0 = refund7\<lparr>tr_status := ''rejected'', tr_processedAt := Some 30\<rparr>)"
proof -
  let ?st = "refund_db (refund7\<lparr>tr_status := ''approved'', tr_processedAt := Some 20\<rparr>)"
  have i7: "int4 7" by (simp add: int4_def)
  have l: "(0::nat) < length (taxRefunds ?st)" by (simp add: refund_db_def)
  have i: "tr_id (taxRefunds ?st ! 0) = 7" by (simp add: refund_db_def refund7_def)
  have r: "(taxRefunds ?st ! 0)\<lparr>tr_status := ''rejected'', tr_processedAt := Some 30\<rparr> =
           refund7\<lparr>tr_status := ''rejected'', tr_processedAt := Some 30\<rparr>"
    by (simp add: refund_db_def)
  have f: "map_option (\<lambda>r. r\<lparr>tr_status := (if ''cancel'' = ''approve'' then ''approved'' else ''rejected''),
                                 tr_processedAt := Some 30\<rparr>)
               (find (\<lambda>r. tr_id r = 7) (taxRefunds ?st)) =
           Some (refund7\<lparr>tr_status := ''rejected'', tr_processedAt := Some 30\<rparr>)"
    by (simp add: refund_db_def refund7_def)
  from process_sets_status [OF i7, of 30 "''cancel''" ?st] obtain res st' where
    p: "processTaxRefund 30 (Some 7) ''cancel'' ?st = Inr (res, st')" and
    q: "res = map_option (\<lambda>r. r\<lparr>tr_status := (if ''cancel'' = ''approve'' then ''approved'' else ''rejected''),
                                 tr_processedAt := Some 30\<rparr>)
               (find (\<lambda>r. tr_id r = 7) (taxRefunds ?st))" and
    k: "\<forall>k < length (taxRefunds ?st).
          (tr_id (taxRefunds ?st ! k) = 7 \<longrightarrow>
             taxRefunds st' ! k =
               (taxRefunds ?st ! k)\<lparr>tr_status := (if ''cancel'' = ''approve'' then ''approved'' else ''rejected''),
                                    tr_processedAt := Some 30\<rparr>
             \<and> (tr_status (taxRefunds st' ! k) = ''approved'') = (''cancel'' = ''approve'')
             \<and> (tr_status (taxRefunds st' ! k) = ''rejected'') = (''cancel'' \<noteq> ''approve'')
             \<and> tr_processedAt (taxRefunds st' ! k) = Some 30)
          \<and> (tr_id (taxRefunds ?st ! k) \<noteq> 7 \<longrightarrow> taxRefunds st' ! k = taxRefunds ?st ! k)"
    by blast
  from k l i have "taxRefunds st' ! 0 =
      (taxRefunds ?st ! 0)\<lparr>tr_status := (if ''cancel'' = ''approve'' then ''approved'' else ''rejected''),
                           tr_processedAt := Some 30\<rparr>"
    by blast
  then have t: "taxRefunds st' ! 0 = refund7\<lparr>tr_status := ''rejected'', tr_processedAt := Some 30\<rparr>"
    using r by simp
  from q f have "res = Some (refund7\<lparr>tr_status := ''rejected'', tr_processedAt := Some 30\<rparr>)"
    by simp
  with p t i7 l i show ?thesis by blast
qed

end
